theory Spec2Isabelle
  imports Complex_Main
begin

section \<open>Values\<close>

text \<open>
  Documents are referred to by store-assigned identifiers. The engine never looks inside
  an identifier; here the store hands out consecutive natural numbers.
\<close>

type_synonym id = nat

text \<open>
  An argument declared \<^verbatim>\<open>v.optional(v.union(T, v.null()))\<close> is in one of three states:
  the key is missing, the key holds \<^verbatim>\<open>null\<close>, or it holds a value. Stored optional
  fields and arguments declared \<^verbatim>\<open>v.optional(T)\<close> are \<open>'a option\<close>, with \<open>None\<close> for
  \<^verbatim>\<open>undefined\<close>.
\<close>

datatype 'a arg = Absent | Null | Val 'a

text \<open>\<^verbatim>\<open>a ?? d\<close>: the left operand unless it is \<^verbatim>\<open>null\<close> or \<^verbatim>\<open>undefined\<close>.\<close>

definition orElse :: "'a arg \<Rightarrow> 'a option \<Rightarrow> 'a option" where
  "orElse a d = (case a of Val x \<Rightarrow> Some x | Null \<Rightarrow> d | Absent \<Rightarrow> d)"

definition optElse :: "'a option \<Rightarrow> 'a \<Rightarrow> 'a" where
  "optElse a d = (case a of Some x \<Rightarrow> x | None \<Rightarrow> d)"

text \<open>\<^verbatim>\<open>a != null\<close>: true exactly when the argument holds a value.\<close>

definition supplied :: "'a arg \<Rightarrow> bool" where
  "supplied a = (case a of Val x \<Rightarrow> True | Null \<Rightarrow> False | Absent \<Rightarrow> False)"

text \<open>
  A \<^verbatim>\<open>float64\<close> is \<^verbatim>\<open>NaN\<close>, one of the two infinities, or a finite value, which the model
  holds as the real number it denotes. Arithmetic on finite values is exact in the model;
  the one computation the engine does on them, \<^verbatim>\<open>Math.floor(year / 10) * 10\<close>, is exact
  in \<^verbatim>\<open>float64\<close> as well for a year of magnitude at most \<open>2\<^sup>5\<^sup>3\<close>, and the properties
  of decades below are stated for such years (\<open>exact_year\<close>).
\<close>

datatype number = NaN | PosInf | NegInf | Num real

text \<open>
  The failures a handler can end in: \<^verbatim>\<open>.unique()\<close> meeting more than one row, a write
  that the schema of its table refuses, and \<^verbatim>\<open>.take(n)\<close> with \<open>n\<close> not a whole number. A
  failed mutation writes nothing.
\<close>

datatype error = NotUnique | SchemaError | NotAnInteger


definition as_id :: "string \<Rightarrow> id option" where
  "as_id s =
     (case s of
        [] \<Rightarrow> None
      | c # rest \<Rightarrow>
          if c = CHR ''#'' \<and> list_all (\<lambda>d. d = CHR ''|'') rest then Some (length rest) else None)"

section \<open>Normalizer\<close>

text \<open>
  A JavaScript string is a sequence of UTF-16 code units. The model holds the strings
  whose code units are all below 256 (the characters up to U+00FF), one \<open>char\<close> for each
  code unit. On these \<^verbatim>\<open>trim\<close> removes, at both ends, the white space and line terminators
  of the language that lie in this range: U+0009 to U+000D, U+0020 and U+00A0. And
  \<^verbatim>\<open>toLowerCase\<close> folds the letters that have a lower-case form: A to Z, and U+00C0 to
  U+00DE except the multiplication sign U+00D7, each to the character 32 places on.
\<close>

definition isSpace :: "char \<Rightarrow> bool" where
  "isSpace c = (of_char c \<in> {9, 10, 11, 12, 13, 32, 160 :: nat})"

definition trim :: "string \<Rightarrow> string" where
  "trim s = rev (dropWhile isSpace (rev (dropWhile isSpace s)))"

definition lowerChar :: "char \<Rightarrow> char" where
  "lowerChar c =
     (let n = of_char c :: nat
      in if (65 \<le> n \<and> n \<le> 90) \<or> (192 \<le> n \<and> n \<le> 222 \<and> n \<noteq> 215) then char_of (n + 32) else c)"

definition toLowerCase :: "string \<Rightarrow> string" where
  "toLowerCase s = map lowerChar s"

definition normalizeString :: "string option \<Rightarrow> string option" where
  "normalizeString v = (case v of None \<Rightarrow> None | Some s \<Rightarrow> Some (toLowerCase (trim s)))"

fun computeDecade :: "number option \<Rightarrow> number option" where
  "computeDecade None = None"
| "computeDecade (Some NaN) = None"
| "computeDecade (Some PosInf) = Some PosInf"
| "computeDecade (Some NegInf) = Some NegInf"
| "computeDecade (Some (Num y)) = Some (Num (of_int \<lfloor>y / 10\<rfloor> * 10))"


section \<open>Catalog store\<close>

text \<open>
  The stored \<^verbatim>\<open>parent_game\<close> is an identifier of the games table or \<^verbatim>\<open>null\<close> (\<open>None\<close>);
  the schema admits nothing else. The \<^verbatim>\<open>parent_game\<close> argument of either mutation is
  validated as an identifier, \<^verbatim>\<open>null\<close> or any string, so at run time it is a string,
  \<^verbatim>\<open>null\<close> or missing.
\<close>

record game =
  game_id :: id
  display_name :: string
  normalized_name :: string
  aliases :: "string list option"
  summary :: string
  franchise :: "string option"
  developer :: "string option"
  publisher :: "string option"
  release_year :: "number option"
  release_decade :: "number option"
  age_rating :: "string option"
  setting :: "string option"
  perspective :: "string option"
  world_type :: "string option"
  price_model :: "string option"
  story_focus :: "string option"
  playtime_hours :: "number option"
  rating :: "number option"
  has_microtransactions :: "bool option"
  is_vr :: "bool option"
  has_mods :: "bool option"
  requires_online :: "bool option"
  cross_platform :: "bool option"
  is_remake_or_remaster :: "bool option"
  is_dlc :: "bool option"
  procedurally_generated :: "bool option"
  parent_game :: "id option"
  genre :: "string list option"
  platforms :: "string list option"
  tags :: "string list option"
  multiplayer_type :: "string list option"
  input_methods :: "string list option"
  createdAt :: real
  updatedAt :: real

text \<open>
  The five join tables and the alias table. A row is a document with the entity
  reference, the table's value column (\<^verbatim>\<open>platform\<close>, \<^verbatim>\<open>genre\<close>, \<^verbatim>\<open>tag\<close>, \<^verbatim>\<open>mode\<close>,
  \<^verbatim>\<open>input\<close> or \<^verbatim>\<open>alias\<close>) and the optional fields its table declares.
\<close>

datatype table = game_platforms | game_genres | game_tags | game_multiplayer | game_inputs
  | game_aliases

record row =
  row_id :: id
  gameId :: id
  val :: string
  row_release_year :: "number option"
  row_release_decade :: "number option"
  row_notes :: "string option"

record db =
  games :: "game list"
  rows :: "table \<Rightarrow> row list"
  next_id :: id

section \<open>Upsert engine: arguments and results\<close>

text \<open>The argument object of \<^verbatim>\<open>addGame\<close>, field by field as its validator declares it.\<close>

record add_args =
  a_display_name :: "string"
  a_normalized_name :: "string arg"
  a_summary :: "string"
  a_release_year :: "number arg"
  a_developer :: "string arg"
  a_publisher :: "string arg"
  a_franchise :: "string arg"
  a_genre :: "string list arg"
  a_platforms :: "string list arg"
  a_age_rating :: "string arg"
  a_setting :: "string arg"
  a_perspective :: "string arg"
  a_world_type :: "string arg"
  a_multiplayer_type :: "string list arg"
  a_input_methods :: "string list arg"
  a_story_focus :: "string arg"
  a_playtime_hours :: "number arg"
  a_tags :: "string list arg"
  a_rating :: "number arg"
  a_price_model :: "string arg"
  a_has_microtransactions :: "bool arg"
  a_is_vr :: "bool arg"
  a_has_mods :: "bool arg"
  a_requires_online :: "bool arg"
  a_cross_platform :: "bool arg"
  a_is_remake_or_remaster :: "bool arg"
  a_is_dlc :: "bool arg"
  a_parent_game :: "string arg"
  a_procedurally_generated :: "bool arg"
  a_aliases :: "string list arg"

text \<open>The argument object of \<^verbatim>\<open>updateGame\<close>.\<close>

record upd_args =
  u_id :: "id"
  u_display_name :: "string option"
  u_normalized_name :: "string arg"
  u_summary :: "string option"
  u_release_year :: "number arg"
  u_developer :: "string arg"
  u_publisher :: "string arg"
  u_franchise :: "string arg"
  u_genre :: "string list arg"
  u_platforms :: "string list arg"
  u_age_rating :: "string arg"
  u_setting :: "string arg"
  u_perspective :: "string arg"
  u_world_type :: "string arg"
  u_multiplayer_type :: "string list arg"
  u_input_methods :: "string list arg"
  u_story_focus :: "string arg"
  u_playtime_hours :: "number arg"
  u_tags :: "string list arg"
  u_rating :: "number arg"
  u_price_model :: "string arg"
  u_has_microtransactions :: "bool arg"
  u_is_vr :: "bool arg"
  u_has_mods :: "bool arg"
  u_requires_online :: "bool arg"
  u_cross_platform :: "bool arg"
  u_is_remake_or_remaster :: "bool arg"
  u_is_dlc :: "bool arg"
  u_parent_game :: "string arg"
  u_procedurally_generated :: "bool arg"
  u_aliases :: "string list arg"

text \<open>The argument object of \<^verbatim>\<open>upsertAliases\<close>.\<close>

record alias_args =
  title :: string
  al_aliases :: "string list"
  al_notes :: "string arg"

record add_result =
  added_id :: id
  inserted :: bool

record upd_result =
  updated_id :: id
  updated :: bool

record alias_result =
  upsert_id :: "id option"
  upserted :: nat

section \<open>Store primitives\<close>

text \<open>
  Tables are lists in creation order, which is the order an index range with an equality
  bound returns its rows in. \<^verbatim>\<open>ctx.db.get\<close> yields \<^verbatim>\<open>null\<close> (\<open>None\<close>) for an identifier
  with no document.
\<close>

definition db_get :: "db \<Rightarrow> id \<Rightarrow> game option" where
  "db_get s i = find (\<lambda>g. game_id g = i) (games s)"

definition by_normalized_name :: "db \<Rightarrow> string \<Rightarrow> game list" where
  "by_normalized_name s n = filter (\<lambda>g. normalized_name g = n) (games s)"

definition by_game :: "db \<Rightarrow> table \<Rightarrow> id \<Rightarrow> row list" where
  "by_game s t g = filter (\<lambda>r. gameId r = g) (rows s t)"

definition by_alias :: "db \<Rightarrow> string \<Rightarrow> row list" where
  "by_alias s a = filter (\<lambda>r. val r = a) (rows s game_aliases)"

definition unique :: "'a list \<Rightarrow> error + 'a option" where
  "unique xs = (case xs of [] \<Rightarrow> Inr None | [x] \<Rightarrow> Inr (Some x) | x # y # zs \<Rightarrow> Inl NotUnique)"

text \<open>An insert stores the document under the next free identifier.\<close>

definition insert_game :: "game \<Rightarrow> db \<Rightarrow> id \<times> db" where
  "insert_game g s =
     (next_id s, s\<lparr>games := games s @ [g\<lparr>game_id := next_id s\<rparr>], next_id := Suc (next_id s)\<rparr>)"

definition insert_row :: "table \<Rightarrow> row \<Rightarrow> db \<Rightarrow> db" where
  "insert_row t r s =
     s\<lparr>rows := (rows s)(t := rows s t @ [r\<lparr>row_id := next_id s\<rparr>]), next_id := Suc (next_id s)\<rparr>"

text \<open>An identifier names its table, so a delete touches that table only.\<close>

definition delete_row :: "table \<Rightarrow> id \<Rightarrow> db \<Rightarrow> db" where
  "delete_row t i s = s\<lparr>rows := (rows s)(t := filter (\<lambda>r. row_id r \<noteq> i) (rows s t))\<rparr>"

definition patch_game :: "id \<Rightarrow> (game \<Rightarrow> game) \<Rightarrow> db \<Rightarrow> db" where
  "patch_game i f s = s\<lparr>games := map (\<lambda>g. if game_id g = i then f g else g) (games s)\<rparr>"

section \<open>Upsert engine\<close>

text \<open>
  The alias loop, written three times in the source with the same body: normalise, skip a
  value that is empty after normalisation, insert a row without looking for an equal one.
\<close>

definition alias_row :: "id \<Rightarrow> string \<Rightarrow> string option \<Rightarrow> row" where
  "alias_row g a n = \<lparr>row_id = 0, gameId = g, val = a, row_release_year = None,
     row_release_decade = None, row_notes = n\<rparr>"

fun insertAliases :: "id \<Rightarrow> string list \<Rightarrow> db \<Rightarrow> db" where
  "insertAliases g [] s = s"
| "insertAliases g (a # rest) s =
     (case normalizeString (Some a) of
        None \<Rightarrow> insertAliases g rest s
      | Some aliasNorm \<Rightarrow>
          if aliasNorm = [] then insertAliases g rest s
          else insertAliases g rest (insert_row game_aliases (alias_row g aliasNorm None) s))"

definition attachAliases :: "id \<Rightarrow> string list option \<Rightarrow> db \<Rightarrow> db" where
  "attachAliases g als s =
     (case als of None \<Rightarrow> s | Some xs \<Rightarrow> if 0 < length xs then insertAliases g xs s else s)"

definition join_row :: "id \<Rightarrow> string \<Rightarrow> number option \<Rightarrow> number option \<Rightarrow> row" where
  "join_row g v y d = \<lparr>row_id = 0, gameId = g, val = v, row_release_year = y,
     row_release_decade = d, row_notes = None\<rparr>"

fun insertMany :: "id \<Rightarrow> number option \<Rightarrow> number option \<Rightarrow> table \<Rightarrow> string list \<Rightarrow> db \<Rightarrow> db" where
  "insertMany g y d t [] s = s"
| "insertMany g y d t (raw # rest) s = insertMany g y d t rest (insert_row t (join_row g raw y d) s)"

definition safeInsertMany ::
  "id \<Rightarrow> number option \<Rightarrow> number option \<Rightarrow> table \<Rightarrow> string list option \<Rightarrow> db \<Rightarrow> db" where
  "safeInsertMany g y d t vs s =
     (case vs of None \<Rightarrow> s | Some xs \<Rightarrow> if length xs = 0 then s else insertMany g y d t xs s)"

definition normalizedName :: "add_args \<Rightarrow> string" where
  "normalizedName args = optElse (orElse (a_normalized_name args) None) (a_display_name args)"

text \<open>
  \<^verbatim>\<open>typeof args.parent_game === "string"\<close> holds for every value that is not \<^verbatim>\<open>null\<close> or
  missing, an identifier included, so the value is always looked up as a
  \<^verbatim>\<open>normalized_name\<close>; the branch for an object is never taken.
\<close>

definition resolveParent :: "string arg \<Rightarrow> db \<Rightarrow> error + id option" where
  "resolveParent p s =
     (case p of
        Val parentRaw \<Rightarrow>
          (case unique (by_normalized_name s parentRaw) of
             Inl e \<Rightarrow> Inl e
           | Inr None \<Rightarrow> Inr None
           | Inr (Some parent) \<Rightarrow> Inr (Some (game_id parent)))
      | Null \<Rightarrow> Inr None
      | Absent \<Rightarrow> Inr None)"

definition new_game :: "real \<Rightarrow> add_args \<Rightarrow> id option \<Rightarrow> game" where
  "new_game now args parentGameId =
     \<lparr>game_id = 0,
      display_name = a_display_name args,
      normalized_name = normalizedName args,
      aliases = None,
      summary = a_summary args,
      franchise = orElse (a_franchise args) None,
      developer = orElse (a_developer args) None,
      publisher = orElse (a_publisher args) None,
      release_year = orElse (a_release_year args) None,
      release_decade = computeDecade (orElse (a_release_year args) None),
      age_rating = orElse (a_age_rating args) None,
      setting = orElse (a_setting args) None,
      perspective = orElse (a_perspective args) None,
      world_type = orElse (a_world_type args) None,
      price_model = orElse (a_price_model args) None,
      story_focus = orElse (a_story_focus args) None,
      playtime_hours = orElse (a_playtime_hours args) None,
      rating = orElse (a_rating args) None,
      has_microtransactions = orElse (a_has_microtransactions args) None,
      is_vr = orElse (a_is_vr args) None,
      has_mods = orElse (a_has_mods args) None,
      requires_online = orElse (a_requires_online args) None,
      cross_platform = orElse (a_cross_platform args) None,
      is_remake_or_remaster = orElse (a_is_remake_or_remaster args) None,
      is_dlc = orElse (a_is_dlc args) None,
      procedurally_generated = orElse (a_procedurally_generated args) None,
      parent_game = parentGameId,
      genre = orElse (a_genre args) None,
      platforms = orElse (a_platforms args) None,
      tags = orElse (a_tags args) None,
      multiplayer_type = orElse (a_multiplayer_type args) None,
      input_methods = orElse (a_input_methods args) None,
      createdAt = now,
      updatedAt = now\<rparr>"

text \<open>The join rows and alias rows written after the entity row of a new game.\<close>

definition addSatellites :: "id \<Rightarrow> add_args \<Rightarrow> db \<Rightarrow> db" where
  "addSatellites g args s =
     (let releaseYear = orElse (a_release_year args) None;
          releaseDecade = computeDecade releaseYear;
          s1 = safeInsertMany g releaseYear releaseDecade game_platforms
                 (orElse (a_platforms args) None) s;
          s2 = safeInsertMany g releaseYear releaseDecade game_genres
                 (orElse (a_genre args) None) s1;
          s3 = safeInsertMany g releaseYear releaseDecade game_tags
                 (orElse (a_tags args) None) s2;
          s4 = safeInsertMany g releaseYear releaseDecade game_multiplayer
                 (orElse (a_multiplayer_type args) None) s3;
          s5 = safeInsertMany g releaseYear releaseDecade game_inputs
                 (orElse (a_input_methods args) None) s4
      in attachAliases g (orElse (a_aliases args) None) s5)"

definition addGame :: "real \<Rightarrow> add_args \<Rightarrow> db \<Rightarrow> error + (add_result \<times> db)" where
  "addGame now args s =
     (case unique (by_normalized_name s (normalizedName args)) of
        Inl e \<Rightarrow> Inl e
      | Inr (Some existing) \<Rightarrow>
          Inr (\<lparr>added_id = game_id existing, inserted = False\<rparr>,
               attachAliases (game_id existing) (orElse (a_aliases args) None) s)
      | Inr None \<Rightarrow>
          (case resolveParent (a_parent_game args) s of
             Inl e \<Rightarrow> Inl e
           | Inr parentGameId \<Rightarrow>
               (case insert_game (new_game now args parentGameId) s of
                  (g, s1) \<Rightarrow> Inr (\<lparr>added_id = g, inserted = True\<rparr>, addSatellites g args s1))))"

text \<open>
  The patch of \<^verbatim>\<open>updateGame\<close> carries \<^verbatim>\<open>args.parent_game ?? existing.parent_game\<close>. The
  games table admits an identifier or \<^verbatim>\<open>null\<close> there, so \<^verbatim>\<open>ctx.db.patch\<close> throws when the
  argument is a string that is not an identifier; every other field of the patch has the
  type the schema declares.
\<close>

definition patchParent :: "upd_args \<Rightarrow> game \<Rightarrow> error + id option" where
  "patchParent args existing =
     (case u_parent_game args of
        Val p \<Rightarrow> (case as_id p of Some i \<Rightarrow> Inr (Some i) | None \<Rightarrow> Inl SchemaError)
      | Null \<Rightarrow> Inr (parent_game existing)
      | Absent \<Rightarrow> Inr (parent_game existing))"

text \<open>
  The document \<^verbatim>\<open>updateGame\<close> hands to \<^verbatim>\<open>ctx.db.patch\<close>, with the parent reference \<open>p\<close> the
  schema let through: every value is computed from the arguments and the document read
  at the start; a field patched with \<^verbatim>\<open>undefined\<close> is removed. \<^verbatim>\<open>createdAt\<close> and
  \<^verbatim>\<open>aliases\<close> are not in the patch.
\<close>

definition patched :: "real \<Rightarrow> upd_args \<Rightarrow> game \<Rightarrow> id option \<Rightarrow> game \<Rightarrow> game" where
  "patched now args existing p g =
     g\<lparr>display_name := optElse (u_display_name args) (display_name existing),
       normalized_name := optElse (orElse (u_normalized_name args) (u_display_name args))
         (normalized_name existing),
       summary := optElse (u_summary args) (summary existing),
       franchise := orElse (u_franchise args) (franchise existing),
       developer := orElse (u_developer args) (developer existing),
       publisher := orElse (u_publisher args) (publisher existing),
       release_year := orElse (u_release_year args) (release_year existing),
       release_decade := computeDecade (orElse (u_release_year args) (release_year existing)),
       age_rating := orElse (u_age_rating args) (age_rating existing),
       setting := orElse (u_setting args) (setting existing),
       perspective := orElse (u_perspective args) (perspective existing),
       world_type := orElse (u_world_type args) (world_type existing),
       price_model := orElse (u_price_model args) (price_model existing),
       story_focus := orElse (u_story_focus args) (story_focus existing),
       playtime_hours := orElse (u_playtime_hours args) (playtime_hours existing),
       rating := orElse (u_rating args) (rating existing),
       has_microtransactions := orElse (u_has_microtransactions args) (has_microtransactions existing),
       is_vr := orElse (u_is_vr args) (is_vr existing),
       has_mods := orElse (u_has_mods args) (has_mods existing),
       requires_online := orElse (u_requires_online args) (requires_online existing),
       cross_platform := orElse (u_cross_platform args) (cross_platform existing),
       is_remake_or_remaster := orElse (u_is_remake_or_remaster args) (is_remake_or_remaster existing),
       is_dlc := orElse (u_is_dlc args) (is_dlc existing),
       procedurally_generated := orElse (u_procedurally_generated args) (procedurally_generated existing),
       parent_game := p,
       genre := orElse (u_genre args) (genre existing),
       platforms := orElse (u_platforms args) (platforms existing),
       tags := orElse (u_tags args) (tags existing),
       multiplayer_type := orElse (u_multiplayer_type args) (multiplayer_type existing),
       input_methods := orElse (u_input_methods args) (input_methods existing),
       updatedAt := now\<rparr>"

fun deleteAll :: "table \<Rightarrow> row list \<Rightarrow> db \<Rightarrow> db" where
  "deleteAll t [] s = s"
| "deleteAll t (r # rest) s = deleteAll t rest (delete_row t (row_id r) s)"

definition clearJoin :: "id \<Rightarrow> table \<Rightarrow> db \<Rightarrow> db" where
  "clearJoin g t s = deleteAll t (take 1000 (by_game s t g)) s"

text \<open>One \<^verbatim>\<open>if (args.field != null) { clearJoin; safeInsertMany }\<close> block.\<close>

definition replaceJoin ::
  "id \<Rightarrow> number option \<Rightarrow> number option \<Rightarrow> table \<Rightarrow> string list arg \<Rightarrow> db \<Rightarrow> db" where
  "replaceJoin g y d t vs s =
     (if supplied vs then safeInsertMany g y d t (orElse vs None) (clearJoin g t s) else s)"

definition replaceAliases :: "id \<Rightarrow> string list arg \<Rightarrow> db \<Rightarrow> db" where
  "replaceAliases g vs s =
     (if supplied vs then attachAliases g (orElse vs None) (clearJoin g game_aliases s) else s)"

definition updateSatellites :: "upd_args \<Rightarrow> number option \<Rightarrow> db \<Rightarrow> db" where
  "updateSatellites args releaseYear s =
     (let releaseDecade = computeDecade releaseYear;
          s1 = replaceJoin (u_id args) releaseYear releaseDecade game_platforms (u_platforms args) s;
          s2 = replaceJoin (u_id args) releaseYear releaseDecade game_genres (u_genre args) s1;
          s3 = replaceJoin (u_id args) releaseYear releaseDecade game_tags (u_tags args) s2;
          s4 = replaceJoin (u_id args) releaseYear releaseDecade game_multiplayer
                 (u_multiplayer_type args) s3;
          s5 = replaceJoin (u_id args) releaseYear releaseDecade game_inputs
                 (u_input_methods args) s4
      in replaceAliases (u_id args) (u_aliases args) s5)"

definition updateGame :: "real \<Rightarrow> upd_args \<Rightarrow> db \<Rightarrow> error + (upd_result \<times> db)" where
  "updateGame now args s =
     (case db_get s (u_id args) of
        None \<Rightarrow> Inr (\<lparr>updated_id = u_id args, updated = False\<rparr>, s)
      | Some existing \<Rightarrow>
          (case patchParent args existing of
             Inl e \<Rightarrow> Inl e
           | Inr p \<Rightarrow>
               Inr (\<lparr>updated_id = u_id args, updated = True\<rparr>,
                    updateSatellites args (orElse (u_release_year args) (release_year existing))
                      (patch_game (u_id args) (patched now args existing p) s))))"

section \<open>Alias upsert\<close>

text \<open>
  The store's full-text search is not part of the engine: it is a parameter \<open>srch\<close> giving,
  for a search index and a query, the ranked hits among the documents of the table.
\<close>

datatype search_index = search_display_name | search_normalized_name | search_summary
  | search_developer | search_publisher

type_synonym search = "search_index \<Rightarrow> string \<Rightarrow> game list \<Rightarrow> game list"

definition retryNormalized :: "db \<Rightarrow> string \<Rightarrow> game option \<Rightarrow> error + game option" where
  "retryNormalized s ttl game1 =
     (case (game1, normalizeString (Some ttl)) of
        (None, Some normalizedCandidate) \<Rightarrow>
          if normalizedCandidate \<noteq> [] \<and> normalizedCandidate \<noteq> ttl
          then unique (by_normalized_name s normalizedCandidate)
          else Inr game1
      | (None, None) \<Rightarrow> Inr game1
      | (Some g, _) \<Rightarrow> Inr game1)"

definition findGame :: "search \<Rightarrow> string \<Rightarrow> db \<Rightarrow> error + game option" where
  "findGame srch ttl s =
     (case unique (by_normalized_name s ttl) of
        Inl e \<Rightarrow> Inl e
      | Inr game1 \<Rightarrow>
          (case retryNormalized s ttl game1 of
             Inl e \<Rightarrow> Inl e
           | Inr (Some game2) \<Rightarrow> Inr (Some game2)
           | Inr None \<Rightarrow>
               (case take 1 (srch search_display_name ttl (games s)) of
                  [] \<Rightarrow> Inr None
                | hit # _ \<Rightarrow> Inr (Some hit))))"

fun upsertLoop :: "id \<Rightarrow> string option \<Rightarrow> string list \<Rightarrow> nat \<Rightarrow> db \<Rightarrow> nat \<times> db" where
  "upsertLoop g n [] k s = (k, s)"
| "upsertLoop g n (a # rest) k s =
     (case normalizeString (Some a) of
        None \<Rightarrow> upsertLoop g n rest k s
      | Some aliasNorm \<Rightarrow>
          if aliasNorm = [] then upsertLoop g n rest k s
          else if list_ex (\<lambda>r. gameId r = g) (take 50 (by_alias s aliasNorm))
          then upsertLoop g n rest k s
          else upsertLoop g n rest (k + 1) (insert_row game_aliases (alias_row g aliasNorm n) s))"

definition upsertAliases :: "search \<Rightarrow> alias_args \<Rightarrow> db \<Rightarrow> error + (alias_result \<times> db)" where
  "upsertAliases srch args s =
     (case findGame srch (title args) s of
        Inl e \<Rightarrow> Inl e
      | Inr None \<Rightarrow> Inr (\<lparr>upsert_id = None, upserted = 0\<rparr>, s)
      | Inr (Some game) \<Rightarrow>
          (case upsertLoop (game_id game) (orElse (al_notes args) None) (al_aliases args) 0 s of
             (k, s') \<Rightarrow> Inr (\<lparr>upsert_id = Some (game_id game), upserted = k\<rparr>, s')))"

section \<open>Query engine\<close>

text \<open>
  \<^verbatim>\<open>paginate\<close> is the store's as well: a parameter \<open>pag\<close> giving, for the rows of an index
  range, a page size and a cursor, the page with its \<^verbatim>\<open>isDone\<close> flag and continuation
  cursor. The listings are modelled for limits that are whole numbers.
\<close>

record page_result =
  page :: "game list"
  isDone :: bool
  continueCursor :: "string option"

type_synonym paginate = "game list \<Rightarrow> nat \<Rightarrow> string option \<Rightarrow> page_result"

definition listLimit :: "int option \<Rightarrow> nat" where
  "listLimit limit = nat (max 1 (min (optElse limit 25) 100))"

text \<open>
  \<^verbatim>\<open>Math.min\<close> and \<^verbatim>\<open>Math.max\<close> on two numbers: \<^verbatim>\<open>NaN\<close> when either is \<^verbatim>\<open>NaN\<close>.
\<close>

fun math_min :: "number \<Rightarrow> number \<Rightarrow> number" where
  "math_min NaN b = NaN"
| "math_min a NaN = NaN"
| "math_min NegInf b = NegInf"
| "math_min a NegInf = NegInf"
| "math_min PosInf b = b"
| "math_min a PosInf = a"
| "math_min (Num x) (Num y) = Num (min x y)"

fun math_max :: "number \<Rightarrow> number \<Rightarrow> number" where
  "math_max NaN b = NaN"
| "math_max a NaN = NaN"
| "math_max PosInf b = PosInf"
| "math_max a PosInf = PosInf"
| "math_max NegInf b = b"
| "math_max a NegInf = a"
| "math_max (Num x) (Num y) = Num (max x y)"

text \<open>The limit of the name search: \<^verbatim>\<open>Math.max(1, Math.min(args.limit ?? 20, 50))\<close>.\<close>

definition searchLimit :: "number option \<Rightarrow> number" where
  "searchLimit limit = math_max (Num 1) (math_min (optElse limit (Num 20)) (Num 50))"


definition terminalPage :: "game list \<Rightarrow> page_result" where
  "terminalPage hits = \<lparr>page = hits, isDone = True, continueCursor = None\<rparr>"

definition listGamesByDeveloper ::
  "paginate \<Rightarrow> search \<Rightarrow> string \<Rightarrow> string option \<Rightarrow> int option \<Rightarrow> db \<Rightarrow> page_result" where
  "listGamesByDeveloper pag srch dev cursor limit s =
     (let p = pag (filter (\<lambda>g. developer g = Some dev) (games s)) (listLimit limit) cursor
      in if length (page p) = 0
         then terminalPage (take (listLimit limit) (srch search_developer dev (games s)))
         else p)"

definition listGamesByPublisher ::
  "paginate \<Rightarrow> search \<Rightarrow> string \<Rightarrow> string option \<Rightarrow> int option \<Rightarrow> db \<Rightarrow> page_result" where
  "listGamesByPublisher pag srch pub cursor limit s =
     (let p = pag (filter (\<lambda>g. publisher g = Some pub) (games s)) (listLimit limit) cursor
      in if length (page p) = 0
         then terminalPage (take (listLimit limit) (srch search_publisher pub (games s)))
         else p)"

definition listGamesByFranchise ::
  "paginate \<Rightarrow> search \<Rightarrow> string \<Rightarrow> string option \<Rightarrow> int option \<Rightarrow> db \<Rightarrow> page_result" where
  "listGamesByFranchise pag srch fr cursor limit s =
     (let p = pag (filter (\<lambda>g. franchise g = Some fr) (games s)) (listLimit limit) cursor
      in if length (page p) = 0
         then terminalPage (take (listLimit limit) (srch search_display_name fr (games s)))
         else p)"

text \<open>The \<^verbatim>\<open>seen\<close> filter of the name search: keeps the first document of each identity.\<close>

fun filterSeen :: "id set \<Rightarrow> game list \<Rightarrow> game list" where
  "filterSeen seen [] = []"
| "filterSeen seen (g # gs) =
     (if game_id g \<in> seen then filterSeen seen gs
      else g # filterSeen (insert (game_id g) seen) gs)"



section \<open>Reading a mutation's outcome\<close>

definition outcome :: "error + ('r \<times> db) \<Rightarrow> 'r option" where
  "outcome x = (case x of Inl e \<Rightarrow> None | Inr (r, s) \<Rightarrow> Some r)"

definition final_state :: "error + ('r \<times> db) \<Rightarrow> db option" where
  "final_state x = (case x of Inl e \<Rightarrow> None | Inr (r, s) \<Rightarrow> Some s)"


text \<open>The mutation \<open>f\<close> run on the state a previous mutation left.\<close>

definition and_then ::
  "error + ('r \<times> db) \<Rightarrow> (db \<Rightarrow> error + ('q \<times> db)) \<Rightarrow> error + ('q \<times> db)" where
  "and_then x f = (case x of Inl e \<Rightarrow> Inl e | Inr (r, s) \<Rightarrow> f s)"





section \<open>Effects on a satellite table\<close>


text \<open>Documents as the store keeps them when they are inserted from identifier \<open>i\<close> on.\<close>

fun stamped :: "id \<Rightarrow> row list \<Rightarrow> row list" where
  "stamped i [] = []"
| "stamped i (r # rs) = r\<lparr>row_id := i\<rparr> # stamped (Suc i) rs"

text \<open>The aliases that the alias loop inserts: normalised, the empty ones dropped.\<close>

definition normalizedAliases :: "string list \<Rightarrow> string list" where
  "normalizedAliases xs = filter (\<lambda>a. a \<noteq> []) (map (\<lambda>a. toLowerCase (trim a)) xs)"


text \<open>The rows of an entity in a table of a mutation's final store.\<close>

definition rows_after :: "error + ('r \<times> db) \<Rightarrow> table \<Rightarrow> id \<Rightarrow> row list option" where
  "rows_after x t g = (case final_state x of None \<Rightarrow> None | Some s \<Rightarrow> Some (by_game s t g))"

section \<open>Sample documents\<close>

definition empty_db :: db where
  "empty_db = \<lparr>games = [], rows = (\<lambda>t. []), next_id = 0\<rparr>"

text \<open>An \<^verbatim>\<open>addGame\<close> document with the two required fields only.\<close>

definition add_doc :: "string \<Rightarrow> string \<Rightarrow> add_args" where
  "add_doc nm sm =
     \<lparr>a_display_name = nm,
      a_normalized_name = Absent,
      a_summary = sm,
      a_release_year = Absent,
      a_developer = Absent,
      a_publisher = Absent,
      a_franchise = Absent,
      a_genre = Absent,
      a_platforms = Absent,
      a_age_rating = Absent,
      a_setting = Absent,
      a_perspective = Absent,
      a_world_type = Absent,
      a_multiplayer_type = Absent,
      a_input_methods = Absent,
      a_story_focus = Absent,
      a_playtime_hours = Absent,
      a_tags = Absent,
      a_rating = Absent,
      a_price_model = Absent,
      a_has_microtransactions = Absent,
      a_is_vr = Absent,
      a_has_mods = Absent,
      a_requires_online = Absent,
      a_cross_platform = Absent,
      a_is_remake_or_remaster = Absent,
      a_is_dlc = Absent,
      a_parent_game = Absent,
      a_procedurally_generated = Absent,
      a_aliases = Absent\<rparr>"

text \<open>An \<^verbatim>\<open>updateGame\<close> document with the identifier only.\<close>

definition upd_doc :: "id \<Rightarrow> upd_args" where
  "upd_doc i =
     \<lparr>u_id = i,
      u_display_name = None,
      u_normalized_name = Absent,
      u_summary = None,
      u_release_year = Absent,
      u_developer = Absent,
      u_publisher = Absent,
      u_franchise = Absent,
      u_genre = Absent,
      u_platforms = Absent,
      u_age_rating = Absent,
      u_setting = Absent,
      u_perspective = Absent,
      u_world_type = Absent,
      u_multiplayer_type = Absent,
      u_input_methods = Absent,
      u_story_focus = Absent,
      u_playtime_hours = Absent,
      u_tags = Absent,
      u_rating = Absent,
      u_price_model = Absent,
      u_has_microtransactions = Absent,
      u_is_vr = Absent,
      u_has_mods = Absent,
      u_requires_online = Absent,
      u_cross_platform = Absent,
      u_is_remake_or_remaster = Absent,
      u_is_dlc = Absent,
      u_parent_game = Absent,
      u_procedurally_generated = Absent,
      u_aliases = Absent\<rparr>"

text \<open>The store after \<^verbatim>\<open>addGame({display_name: "Portal 2", summary: "A game"})\<close> at time 5.\<close>

definition portal_db :: db where
  "portal_db =
     \<lparr>games = [(new_game 5 (add_doc ''Portal 2'' ''A game'') None)\<lparr>game_id := 0\<rparr>],
      rows = (\<lambda>t. []), next_id = 1\<rparr>"

text \<open>A second document for the same entity: another title, the same \<^verbatim>\<open>normalized_name\<close>.\<close>

definition portal_again :: add_args where
  "portal_again = (add_doc ''Another title'' ''Again'')\<lparr>a_normalized_name := Val ''Portal 2''\<rparr>"

text \<open>The first document again, now with an alias.\<close>

definition portal_aliased :: add_args where
  "portal_aliased = (add_doc ''Portal 2'' ''A game'')\<lparr>a_aliases := Val [''P2'']\<rparr>"














section \<open>Search indexes and sample store primitives\<close>

text \<open>The field each search index of the schema is declared on.\<close>

fun searchField :: "search_index \<Rightarrow> game \<Rightarrow> string option" where
  "searchField search_display_name g = Some (display_name g)"
| "searchField search_normalized_name g = Some (normalized_name g)"
| "searchField search_summary g = Some (summary g)"
| "searchField search_developer g = developer g"
| "searchField search_publisher g = publisher g"

text \<open>
  A stand-in for the store's text search, used on sample data only: the documents whose
  field starts with the query, in table order.
\<close>

definition field_search :: "(game \<Rightarrow> string option) \<Rightarrow> string \<Rightarrow> game list \<Rightarrow> game list" where
  "field_search f q gs =
     filter (\<lambda>g. case f g of None \<Rightarrow> False | Some v \<Rightarrow> take (length q) v = q) gs"

definition sample_search :: search where
  "sample_search idx q gs = field_search (searchField idx) q gs"

text \<open>A stand-in for the store's pagination: the page that follows the first \<open>k\<close> rows.\<close>

definition sample_paginate :: "nat \<Rightarrow> paginate" where
  "sample_paginate k rs n cursor =
     \<lparr>page = take n (drop k rs), isDone = (length rs \<le> k + n), continueCursor = Some ''next''\<rparr>"


text \<open>
  The franchise listing as the specification words its fallback: a text search over the
  same field as the exact index, the franchise.
\<close>

definition listGamesByFranchise_as_claimed ::
  "paginate \<Rightarrow> string \<Rightarrow> string option \<Rightarrow> int option \<Rightarrow> db \<Rightarrow> page_result" where
  "listGamesByFranchise_as_claimed pag fr cursor limit s =
     (let p = pag (filter (\<lambda>g. franchise g = Some fr) (games s)) (listLimit limit) cursor
      in if length (page p) = 0
         then terminalPage (take (listLimit limit) (field_search franchise fr (games s)))
         else p)"

text \<open>Three entities: a game of the Portal franchise, a mod, and an unrelated title.\<close>

definition portal2_game :: game where
  "portal2_game = (new_game 5 ((add_doc ''Portal 2'' ''A game'')
       \<lparr>a_normalized_name := Val ''portal 2'', a_franchise := Val ''Portal'',
        a_developer := Val ''Valve''\<rparr>) None)\<lparr>game_id := 0\<rparr>"

definition mel_game :: game where
  "mel_game = (new_game 6 ((add_doc ''Portal Stories: Mel'' ''A mod'')
       \<lparr>a_normalized_name := Val ''portal stories: mel''\<rparr>) None)\<lparr>game_id := 1\<rparr>"

definition runner_game :: game where
  "runner_game = (new_game 7 ((add_doc ''portal runner'' ''Another game'')
       \<lparr>a_normalized_name := Val ''portal runner''\<rparr>) None)\<lparr>game_id := 2\<rparr>"

definition valve_db :: db where
  "valve_db = \<lparr>games = [portal2_game, mel_game, runner_game], rows = (\<lambda>t. []), next_id = 3\<rparr>"

text \<open>An alias batch for the stored entity: \<^verbatim>\<open>{title: "Portal 2", aliases: ["P2"]}\<close>.\<close>

definition p2_args :: alias_args where
  "p2_args = \<lparr>title = ''Portal 2'', al_aliases = [''P2''], al_notes = Absent\<rparr>"

section \<open>Facts about the store primitives\<close>

lemma unique_Some: "unique xs = Inr (Some x) \<longleftrightarrow> xs = [x]"
  by (auto simp: unique_def split: list.splits)

lemma unique_None: "unique xs = Inr None \<longleftrightarrow> xs = []"
  by (auto simp: unique_def split: list.splits)

lemma rows_insert_row:
  "rows (insert_row t r s) t' = (if t' = t then rows s t @ [r\<lparr>row_id := next_id s\<rparr>] else rows s t')"
  by (simp add: insert_row_def)

lemma next_id_insert_row: "next_id (insert_row t r s) = Suc (next_id s)"
  by (simp add: insert_row_def)

lemma games_insert_row: "games (insert_row t r s) = games s"
  by (simp add: insert_row_def)


lemma length_stamped: "length (stamped i rs) = length rs"
  by (induction rs arbitrary: i) simp_all


lemma insertMany_effect:
  "rows (insertMany g y d t xs s) t' =
     (if t' = t then rows s t @ stamped (next_id s) (map (\<lambda>v. join_row g v y d) xs) else rows s t')
   \<and> next_id (insertMany g y d t xs s) = next_id s + length xs
   \<and> games (insertMany g y d t xs s) = games s"
proof (induction xs arbitrary: s t')
  case Nil
  show ?case by simp
next
  case (Cons x xs)
  show ?case
    by (simp add: Cons rows_insert_row next_id_insert_row games_insert_row)
qed

lemma normalizedAliases_Cons:
  "normalizedAliases (a # xs) =
     (if toLowerCase (trim a) = [] then normalizedAliases xs
      else toLowerCase (trim a) # normalizedAliases xs)"
  by (simp add: normalizedAliases_def)

lemma insertAliases_effect:
  "rows (insertAliases g xs s) t' =
     (if t' = game_aliases
      then rows s game_aliases
        @ stamped (next_id s) (map (\<lambda>a. alias_row g a None) (normalizedAliases xs))
      else rows s t')
   \<and> next_id (insertAliases g xs s) = next_id s + length (normalizedAliases xs)
   \<and> games (insertAliases g xs s) = games s"
proof (induction xs arbitrary: s t')
  case Nil
  show ?case by (simp add: normalizedAliases_def)
next
  case (Cons x xs)
  show ?case
    by (simp add: Cons normalizeString_def normalizedAliases_Cons rows_insert_row
        next_id_insert_row games_insert_row)
qed








lemma games_attachAliases: "games (attachAliases g als s) = games s"
  by (simp add: attachAliases_def insertAliases_effect split: option.splits)

lemma games_safeInsertMany: "games (safeInsertMany g y d t vs s) = games s"
  by (simp add: safeInsertMany_def insertMany_effect split: option.splits)

lemma games_addSatellites: "games (addSatellites g args s) = games s"
  by (simp add: addSatellites_def Let_def games_attachAliases games_safeInsertMany)

section \<open>Update of a missing entity\<close>

text \<open>
  C7. An \<^verbatim>\<open>updateGame\<close> call whose identifier has no document returns normally, with
  the result \<^verbatim>\<open>{_id: id, updated: false}\<close>, and the store it leaves is the store it found:
  no entity is created and no table changes.
\<close>

theorem updateGame_missing_is_noop:
  "db_get s (u_id args) = None \<Longrightarrow>
   updateGame now args s = Inr (\<lparr>updated_id = u_id args, updated = False\<rparr>, s)"
  by (simp add: updateGame_def)

theorem updateGame_missing_is_noop_witness:
  "db_get empty_db (u_id (upd_doc 7)) = None \<and>
   updateGame 1 (upd_doc 7) empty_db = Inr (\<lparr>updated_id = 7, updated = False\<rparr>, empty_db)"
  using updateGame_missing_is_noop [of empty_db "upd_doc 7" 1]
  by (simp add: db_get_def empty_db_def upd_doc_def)

section \<open>Idempotent create\<close>

lemma addGame_cases:
  assumes "addGame now args s = Inr (r, s1)"
  shows "(\<exists>existing. by_normalized_name s (normalizedName args) = [existing]
            \<and> r = \<lparr>added_id = game_id existing, inserted = False\<rparr>
            \<and> s1 = attachAliases (game_id existing) (orElse (a_aliases args) None) s)
       \<or> (\<exists>p. by_normalized_name s (normalizedName args) = []
            \<and> resolveParent (a_parent_game args) s = Inr p
            \<and> r = \<lparr>added_id = next_id s, inserted = True\<rparr>
            \<and> s1 = addSatellites (next_id s) args (snd (insert_game (new_game now args p) s)))"
  using assms
  by (auto simp: addGame_def unique_Some unique_None insert_game_def
           split: sum.splits option.splits prod.splits)

lemma addGame_leaves_one:
  assumes "addGame now args s = Inr (r, s1)"
  shows "\<exists>g. by_normalized_name s1 (normalizedName args) = [g] \<and> game_id g = added_id r"
  using addGame_cases [OF assms]
  by (auto simp: by_normalized_name_def insert_game_def games_attachAliases
      games_addSatellites new_game_def)

lemma addGame_existing:
  assumes "by_normalized_name s (normalizedName args) = [g]"
  shows "addGame now args s = Inr (\<lparr>added_id = game_id g, inserted = False\<rparr>,
           attachAliases (game_id g) (orElse (a_aliases args) None) s)"
  using assms by (simp add: addGame_def unique_def)

text \<open>
  C1. Whenever a call of \<^verbatim>\<open>addGame\<close> returns, the store holds exactly one entity with the
  \<^verbatim>\<open>normalized_name\<close> the call resolved, and it is the entity the call returned. Any later
  call whose document resolves to the same \<^verbatim>\<open>normalized_name\<close> returns that identity with
  \<^verbatim>\<open>inserted: false\<close> and leaves the games table as it was. (A call fails to return only
  when \<^verbatim>\<open>.unique()\<close> meets two entities of one name.)
\<close>

theorem addGame_idempotent:
  assumes "addGame now1 doc1 s = Inr (r1, s1)"
    and "normalizedName doc2 = normalizedName doc1"
  shows "outcome (addGame now2 doc2 s1) = Some \<lparr>added_id = added_id r1, inserted = False\<rparr>
       \<and> map_option games (final_state (addGame now2 doc2 s1)) = Some (games s1)
       \<and> map game_id (by_normalized_name s1 (normalizedName doc1)) = [added_id r1]"
proof -
  from addGame_leaves_one [OF assms(1)] obtain g where
    g: "by_normalized_name s1 (normalizedName doc1) = [g]" "game_id g = added_id r1"
    by blast
  then have "by_normalized_name s1 (normalizedName doc2) = [g]"
    using assms(2) by simp
  from addGame_existing [OF this, of now2] g show ?thesis
    by (simp add: outcome_def final_state_def games_attachAliases)
qed

lemma addGame_fresh_doc:
  "addGame 5 (add_doc ''Portal 2'' ''A game'') empty_db =
     Inr (\<lparr>added_id = 0, inserted = True\<rparr>, portal_db)"
  by (simp add: addGame_def empty_db_def by_normalized_name_def unique_def resolveParent_def
      insert_game_def addSatellites_def safeInsertMany_def attachAliases_def orElse_def
      add_doc_def portal_db_def)

lemma portal_again_name: "normalizedName portal_again = normalizedName (add_doc ''Portal 2'' ''A game'')"
  by (simp add: normalizedName_def add_doc_def orElse_def optElse_def portal_again_def)

theorem addGame_idempotent_witness:
  "addGame 5 (add_doc ''Portal 2'' ''A game'') empty_db
     = Inr (\<lparr>added_id = 0, inserted = True\<rparr>, portal_db)
   \<and> normalizedName portal_again = normalizedName (add_doc ''Portal 2'' ''A game'')
   \<and> outcome (addGame 6 portal_again portal_db) = Some \<lparr>added_id = 0, inserted = False\<rparr>
   \<and> map_option games (final_state (addGame 6 portal_again portal_db)) = Some (games portal_db)
   \<and> map game_id (by_normalized_name portal_db (normalizedName (add_doc ''Portal 2'' ''A game'')))
       = [0]"
  using addGame_idempotent [OF addGame_fresh_doc portal_again_name, of 6]
    addGame_fresh_doc portal_again_name
  by simp

section \<open>The stored name\<close>

lemma normalize_Portal: "normalizeString (Some ''Portal 2'') = Some ''portal 2''"
  by code_simp

lemma normalizedAliases_P2: "normalizedAliases [''P2''] = [''p2'']"
  by code_simp

text \<open>
  Beyond ASCII: a no-break space is trimmed, \<^verbatim>\<open>U+00C9\<close> is folded to \<^verbatim>\<open>U+00E9\<close>, and the
  multiplication sign and a blank inside the string stay.
\<close>

lemma normalize_beyond_ascii:
  "normalizeString (Some [CHR 0xA0, CHR 0xC9, CHR 0x20, CHR 0xD7, CHR 0x09])
     = Some [CHR 0xE9, CHR 0x20, CHR 0xD7]"
  by code_simp

lemma addGame_lower_case_doc:
  "addGame 6 (add_doc ''portal 2'' ''A game'') portal_db
     = Inr (\<lparr>added_id = 1, inserted = True\<rparr>,
            \<lparr>games = games portal_db
               @ [(new_game 6 (add_doc ''portal 2'' ''A game'') None)\<lparr>game_id := 1\<rparr>],
             rows = (\<lambda>t. []), next_id = 2\<rparr>)"
  by (simp add: addGame_def by_normalized_name_def unique_def resolveParent_def
      insert_game_def addSatellites_def safeInsertMany_def attachAliases_def orElse_def optElse_def
      add_doc_def portal_db_def new_game_def normalizedName_def)

text \<open>
  C2. The claim is that \<^verbatim>\<open>addGame\<close> stores, and looks up, the trimmed and case-folded form
  of the supplied name. The code stores \<^verbatim>\<open>args.normalized_name ?? args.display_name\<close> as it
  comes: the document \<^verbatim>\<open>{display_name: "Portal 2"}\<close> is stored under the name
  \<^verbatim>\<open>"Portal 2"\<close>, whose normal form is \<^verbatim>\<open>"portal 2"\<close>, and a later document
  \<^verbatim>\<open>{display_name: "portal 2"}\<close> is not recognised as the same entity but inserted as a
  second one.
\<close>

theorem addGame_stores_raw_name:
  "map_option (map normalized_name) (map_option games
      (final_state (addGame 5 (add_doc ''Portal 2'' ''A game'') empty_db))) = Some [''Portal 2'']
   \<and> normalizeString (Some ''Portal 2'') = Some ''portal 2''
   \<and> outcome (addGame 6 (add_doc ''portal 2'' ''A game'') portal_db)
       = Some \<lparr>added_id = 1, inserted = True\<rparr>"
proof -
  have "map normalized_name (games portal_db) = [''Portal 2'']"
    by (simp add: portal_db_def new_game_def normalizedName_def add_doc_def orElse_def optElse_def)
  then show ?thesis
    unfolding addGame_fresh_doc addGame_lower_case_doc
    by (simp add: final_state_def outcome_def normalize_Portal)
qed

section \<open>Aliases attached to an existing entity\<close>

lemma portal_aliased_existing:
  "games s = games portal_db \<Longrightarrow>
   addGame now portal_aliased s
     = Inr (\<lparr>added_id = 0, inserted = False\<rparr>, insertAliases 0 [''P2''] s)"
  by (simp add: addGame_def by_normalized_name_def portal_db_def new_game_def normalizedName_def
      portal_aliased_def add_doc_def orElse_def optElse_def unique_def attachAliases_def)

text \<open>
  C6. The claim is that attaching the same alias to the same entity twice never leaves two
  rows with the same entity and alias. On the path of \<^verbatim>\<open>addGame\<close> for an existing
  \<^verbatim>\<open>normalized_name\<close> the loop inserts without looking: sending the document
  \<^verbatim>\<open>{display_name: "Portal 2", aliases: ["P2"]}\<close> twice for the stored entity 0 leaves the
  alias table with two rows \<^verbatim>\<open>(0, "p2")\<close>.
\<close>

theorem addGame_repeats_alias_rows:
  "map_option (map val) (rows_after (and_then (addGame 6 portal_aliased portal_db)
      (addGame 7 portal_aliased)) game_aliases 0) = Some [''p2'', ''p2'']
   \<and> map_option (map gameId) (rows_after (and_then (addGame 6 portal_aliased portal_db)
      (addGame 7 portal_aliased)) game_aliases 0) = Some [0, 0]"
proof -
  have first: "addGame 6 portal_aliased portal_db
      = Inr (\<lparr>added_id = 0, inserted = False\<rparr>, insertAliases 0 [''P2''] portal_db)"
    by (rule portal_aliased_existing) simp
  have "games (insertAliases 0 [''P2''] portal_db) = games portal_db"
    by (simp add: insertAliases_effect del: insertAliases.simps)
  then have second: "addGame 7 portal_aliased (insertAliases 0 [''P2''] portal_db)
      = Inr (\<lparr>added_id = 0, inserted = False\<rparr>,
             insertAliases 0 [''P2''] (insertAliases 0 [''P2''] portal_db))"
    by (rule portal_aliased_existing)
  have "rows portal_db game_aliases = []"
    by (simp add: portal_db_def)
  then have twice: "rows (insertAliases 0 [''P2''] (insertAliases 0 [''P2''] portal_db)) game_aliases
      = [(alias_row 0 ''p2'' None)\<lparr>row_id := next_id portal_db\<rparr>,
         (alias_row 0 ''p2'' None)\<lparr>row_id := Suc (next_id portal_db)\<rparr>]"
    by (simp add: insertAliases_effect normalizedAliases_P2 del: insertAliases.simps)
  show ?thesis
    unfolding first and_then_def
    by (simp add: second rows_after_def final_state_def by_game_def twice alias_row_def
        del: insertAliases.simps)
qed

text \<open>
  The sibling path does look first: the same alias sent twice through \<^verbatim>\<open>upsertAliases\<close>
  leaves one row, and the second call reports nothing upserted.
\<close>

lemma normalize_P2: "normalizeString (Some ''P2'') = Some ''p2''"
  by code_simp

lemma findGame_portal:
  "games s = games portal_db \<Longrightarrow>
   findGame srch ''Portal 2'' s
     = Inr (Some ((new_game 5 (add_doc ''Portal 2'' ''A game'') None)\<lparr>game_id := 0\<rparr>))"
  by (simp add: findGame_def retryNormalized_def by_normalized_name_def unique_def portal_db_def
      new_game_def normalizedName_def add_doc_def orElse_def optElse_def)

lemma upsertAliases_first:
  "upsertAliases srch p2_args portal_db
     = Inr (\<lparr>upsert_id = Some 0, upserted = 1\<rparr>,
            insert_row game_aliases (alias_row 0 ''p2'' None) portal_db)"
proof -
  have "by_alias portal_db ''p2'' = []"
    by (simp add: by_alias_def portal_db_def)
  then have "upsertLoop 0 None [''P2''] 0 portal_db
      = (1, insert_row game_aliases (alias_row 0 ''p2'' None) portal_db)"
    by (simp add: normalize_P2)
  then show ?thesis
    by (simp add: upsertAliases_def p2_args_def findGame_portal orElse_def)
qed

lemma upsertAliases_second:
  "upsertAliases srch p2_args (insert_row game_aliases (alias_row 0 ''p2'' None) portal_db)
     = Inr (\<lparr>upsert_id = Some 0, upserted = 0\<rparr>,
            insert_row game_aliases (alias_row 0 ''p2'' None) portal_db)"
proof -
  let ?s = "insert_row game_aliases (alias_row 0 ''p2'' None) portal_db"
  have "by_alias ?s ''p2'' = [(alias_row 0 ''p2'' None)\<lparr>row_id := 1\<rparr>]"
    by (simp add: by_alias_def rows_insert_row portal_db_def alias_row_def)
  then have "upsertLoop 0 None [''P2''] 0 ?s = (0, ?s)"
    by (simp add: normalize_P2 alias_row_def)
  moreover have "games ?s = games portal_db"
    by (simp add: games_insert_row)
  ultimately show ?thesis
    by (simp add: upsertAliases_def p2_args_def findGame_portal orElse_def)
qed

lemma upsertAliases_checks_first:
  "map_option (map val) (rows_after (and_then (upsertAliases srch p2_args portal_db)
      (upsertAliases srch p2_args)) game_aliases 0) = Some [''p2'']
   \<and> outcome (and_then (upsertAliases srch p2_args portal_db) (upsertAliases srch p2_args))
       = Some \<lparr>upsert_id = Some 0, upserted = 0\<rparr>"
proof -
  have "map val (by_game (insert_row game_aliases (alias_row 0 ''p2'' None) portal_db)
      game_aliases 0) = [''p2'']"
    by (simp add: by_game_def rows_insert_row portal_db_def alias_row_def)
  then show ?thesis
    unfolding upsertAliases_first and_then_def
    by (simp add: upsertAliases_second rows_after_def final_state_def outcome_def)
qed

section \<open>Field-by-field fallback of an update\<close>






















section \<open>Decade derivation\<close>








section \<open>Replace-all reconciliation of the satellite tables\<close>










































section \<open>Name search\<close>



lemma filterSeen_subset: "set (filterSeen A xs) \<subseteq> set xs"
  by (induction xs arbitrary: A) auto

lemma filterSeen_fresh: "g \<in> set (filterSeen A xs) \<Longrightarrow> game_id g \<notin> A"
  by (induction xs arbitrary: A) (auto split: if_splits)

lemma distinct_filterSeen: "distinct (map game_id (filterSeen A xs))"
proof (induction xs arbitrary: A)
  case Nil
  show ?case by simp
next
  case (Cons g xs)
  have "game_id g \<notin> game_id ` set (filterSeen (insert (game_id g) A) xs)"
    using filterSeen_fresh by fastforce
  then show ?case
    by (simp add: Cons.IH)
qed


lemma sample_fields:
  "game_id portal2_game = 0" "game_id mel_game = 1" "game_id runner_game = 2"
  "display_name portal2_game = ''Portal 2''" "display_name mel_game = ''Portal Stories: Mel''"
  "display_name runner_game = ''portal runner''"
  "normalized_name portal2_game = ''portal 2''" "normalized_name mel_game = ''portal stories: mel''"
  "normalized_name runner_game = ''portal runner''"
  "franchise portal2_game = Some ''Portal''" "franchise mel_game = None"
  "franchise runner_game = None"
  "developer portal2_game = Some ''Valve''" "developer mel_game = None"
  "developer runner_game = None"
  "publisher portal2_game = None" "publisher mel_game = None" "publisher runner_game = None"
  by (simp_all add: portal2_game_def mel_game_def runner_game_def new_game_def add_doc_def
      normalizedName_def orElse_def optElse_def)

lemma games_valve: "games valve_db = [portal2_game, mel_game, runner_game]"
  by (simp add: valve_db_def)

lemma limits_default: "searchLimit None = Num 20" "listLimit None = 25"
  by (simp_all add: searchLimit_def listLimit_def optElse_def)


















section \<open>Listings with a text-search fallback\<close>

text \<open>
  C8, as amended. The developer, publisher and franchise listings read a page of the exact
  index first. A page that is not empty is returned as it is, with nothing from a text
  search added. Only when the page is empty is a text search run, and its hits, cut at
  the limit, are returned as a terminal page (\<^verbatim>\<open>isDone\<close> set, no continuation cursor).
  For developer and publisher the search index is the one on the same field; for
  franchise it is the index on \<^verbatim>\<open>display_name\<close>.
\<close>

theorem listing_fallback:
  "(let p = pag (filter (\<lambda>g. developer g = Some dev) (games s)) (listLimit limit) cursor in
      (page p \<noteq> [] \<longrightarrow> listGamesByDeveloper pag srch dev cursor limit s = p)
    \<and> (page p = [] \<longrightarrow> listGamesByDeveloper pag srch dev cursor limit s
          = \<lparr>page = take (listLimit limit) (srch search_developer dev (games s)),
             isDone = True, continueCursor = None\<rparr>))
   \<and> searchField search_developer = developer
   \<and> (let p = pag (filter (\<lambda>g. publisher g = Some pub) (games s)) (listLimit limit) cursor in
      (page p \<noteq> [] \<longrightarrow> listGamesByPublisher pag srch pub cursor limit s = p)
    \<and> (page p = [] \<longrightarrow> listGamesByPublisher pag srch pub cursor limit s
          = \<lparr>page = take (listLimit limit) (srch search_publisher pub (games s)),
             isDone = True, continueCursor = None\<rparr>))
   \<and> searchField search_publisher = publisher
   \<and> (let p = pag (filter (\<lambda>g. franchise g = Some fr) (games s)) (listLimit limit) cursor in
      (page p \<noteq> [] \<longrightarrow> listGamesByFranchise pag srch fr cursor limit s = p)
    \<and> (page p = [] \<longrightarrow> listGamesByFranchise pag srch fr cursor limit s
          = \<lparr>page = take (listLimit limit) (srch search_display_name fr (games s)),
             isDone = True, continueCursor = None\<rparr>))
   \<and> searchField search_display_name = (\<lambda>g. Some (display_name g))"
  by (simp add: listGamesByDeveloper_def listGamesByPublisher_def listGamesByFranchise_def
      terminalPage_def Let_def fun_eq_iff)

lemma exact_Valve:
  "filter (\<lambda>g. developer g = Some ''Valve'') (games valve_db) = [portal2_game]"
  by (simp add: games_valve sample_fields)

lemma exact_Val:
  "filter (\<lambda>g. developer g = Some ''Val'') (games valve_db) = []"
  by (simp add: games_valve sample_fields)

lemma fuzzy_Val:
  "sample_search search_developer ''Val'' (games valve_db) = [portal2_game]"
  by (simp add: sample_search_def field_search_def games_valve sample_fields)

lemma exact_Port:
  "filter (\<lambda>g. franchise g = Some ''Port'') (games valve_db) = []"
  by (simp add: games_valve sample_fields)

lemma fuzzy_Port:
  "sample_search search_display_name ''Port'' (games valve_db) = [portal2_game, mel_game]"
  by (simp add: sample_search_def field_search_def games_valve sample_fields)

lemma exact_publisher:
  "filter (\<lambda>g. publisher g = Some ''Valve'') (games valve_db) = []"
  by (simp add: games_valve sample_fields)

lemma fuzzy_publisher:
  "sample_search search_publisher ''Valve'' (games valve_db) = []"
  by (simp add: sample_search_def field_search_def games_valve sample_fields)

theorem listing_fallback_witness:
  "page (sample_paginate 0 (filter (\<lambda>g. developer g = Some ''Valve'') (games valve_db))
      (listLimit None) None) \<noteq> []
   \<and> listGamesByDeveloper (sample_paginate 0) sample_search ''Valve'' None None valve_db
       = \<lparr>page = [portal2_game], isDone = True, continueCursor = Some ''next''\<rparr>
   \<and> page (sample_paginate 0 (filter (\<lambda>g. developer g = Some ''Val'') (games valve_db))
      (listLimit None) None) = []
   \<and> listGamesByDeveloper (sample_paginate 0) sample_search ''Val'' None None valve_db
       = \<lparr>page = [portal2_game], isDone = True, continueCursor = None\<rparr>
   \<and> page (sample_paginate 0 (filter (\<lambda>g. publisher g = Some ''Valve'') (games valve_db))
      (listLimit None) None) = []
   \<and> listGamesByPublisher (sample_paginate 0) sample_search ''Valve'' None None valve_db
       = \<lparr>page = [], isDone = True, continueCursor = None\<rparr>
   \<and> page (sample_paginate 0 (filter (\<lambda>g. franchise g = Some ''Port'') (games valve_db))
      (listLimit None) None) = []
   \<and> listGamesByFranchise (sample_paginate 0) sample_search ''Port'' None None valve_db
       = \<lparr>page = [portal2_game, mel_game], isDone = True, continueCursor = None\<rparr>"
  using listing_fallback [of "sample_paginate 0" "''Valve''" valve_db None None sample_search
      "''Valve''" "''Port''"]
    listing_fallback [of "sample_paginate 0" "''Val''" valve_db None None sample_search
      "''Valve''" "''Port''"]
  by (simp add: exact_Valve exact_Val fuzzy_Val exact_Port fuzzy_Port exact_publisher
      fuzzy_publisher limits_default sample_paginate_def Let_def)

text \<open>
  C8 as stated fails for the franchise listing, whose fallback does not search the
  franchise field: for the query \<^verbatim>\<open>"Port"\<close> no franchise equals the query, and the
  listing returns the two entities whose display name matches, one of which has no
  franchise, where a search over the franchise field has one hit.
\<close>

theorem franchise_fallback_searches_display_name:
  "page (listGamesByFranchise (sample_paginate 0) sample_search ''Port'' None None valve_db)
     = [portal2_game, mel_game]
   \<and> page (listGamesByFranchise_as_claimed (sample_paginate 0) ''Port'' None None valve_db)
     = [portal2_game]
   \<and> listGamesByFranchise (sample_paginate 0) sample_search ''Port'' None None valve_db
     \<noteq> listGamesByFranchise_as_claimed (sample_paginate 0) ''Port'' None None valve_db"
proof -
  have a: "page (listGamesByFranchise (sample_paginate 0) sample_search ''Port'' None None valve_db)
     = [portal2_game, mel_game]"
    by (simp add: listGamesByFranchise_def Let_def exact_Port sample_paginate_def terminalPage_def
        sample_search_def field_search_def games_valve sample_fields limits_default)
  have b: "page (listGamesByFranchise_as_claimed (sample_paginate 0) ''Port'' None None valve_db)
     = [portal2_game]"
    by (simp add: listGamesByFranchise_as_claimed_def Let_def exact_Port sample_paginate_def
        terminalPage_def field_search_def games_valve sample_fields limits_default)
  from a b have "page (listGamesByFranchise (sample_paginate 0) sample_search ''Port'' None None valve_db)
     \<noteq> page (listGamesByFranchise_as_claimed (sample_paginate 0) ''Port'' None None valve_db)"
    by simp
  then have "listGamesByFranchise (sample_paginate 0) sample_search ''Port'' None None valve_db
     \<noteq> listGamesByFranchise_as_claimed (sample_paginate 0) ''Port'' None None valve_db"
    by metis
  with a b show ?thesis by simp
qed

end
